theory Spec2Isabelle
  imports Main
begin

section \<open>Values exchanged with the HTTP layer\<close>

text \<open>
  Response bodies are JSON documents. An object is a list of fields in the order in which
  the handler writes them; a field whose value is \<open>undefined\<close> in the handler is absent from
  the list, as \<open>res.json\<close> drops it. Dates are numbers (seconds); an access token is
  kept as the token it denotes (see the token codec below).
\<close>

datatype token =
    Jwt (signed_with: string) (claims: "(string \<times> string) list") (iat: nat) (exp: nat)
  | Opaque string

datatype json =
    JNull
  | JBool bool
  | JNum int
  | JStr string
  | JTok token
  | JArr "json list"
  | JObj "(string \<times> json) list"

record response =
  status :: nat
  body :: json

text \<open>
  What \<open>getUserIdFromAccessToken\<close> can return: a string, \<open>null\<close> (the \<open>catch\<close> branch) or
  \<open>undefined\<close> (a decoded payload without an \<open>id\<close> property).
\<close>

datatype jsval = Str string | Null | Undefined

fun falsy :: "jsval \<Rightarrow> bool" where
  "falsy (Str s) = (s = [])"
| "falsy Null = True"
| "falsy Undefined = True"

text \<open>
  The outcome of \<open>schema.parse(req.body)\<close> of the validation library is an input of the
  model: either the list of issues carried by the \<open>ZodError\<close> (each a path and a message) or
  the validated fields.
\<close>

type_synonym issue = "string list \<times> string"

datatype 'a parsed = ZodError "issue list" | Parsed 'a

section \<open>Token codec\<close>

text \<open>
  The JSON Web Token library is modelled symbolically: a signed token (\<open>Jwt\<close>) records the
  key it was signed with, the claims of the payload, and the issue and expiry times in
  seconds; every other string (the empty string among them) is \<open>Opaque\<close>. \<open>jwt_sign\<close> with
  \<open>expiresIn: "1h"\<close> sets the expiry 3600 seconds after the clock and throws (\<open>None\<close>) without
  a key; \<open>jwt_verify\<close> throws (\<open>None\<close>) without a key, on a string that is not a token, on a
  token signed with another key, and once the clock has reached the expiry.
\<close>

definition jwt_sign :: "(string \<times> string) list \<Rightarrow> string option \<Rightarrow> nat \<Rightarrow> token option" where
  "jwt_sign payload secretKey clock =
     (case secretKey of
        None \<Rightarrow> None
      | Some k \<Rightarrow> if k = [] then None else Some (Jwt k payload clock (clock + 3600)))"

definition jwt_verify :: "token \<Rightarrow> string option \<Rightarrow> nat \<Rightarrow> (string \<times> string) list option" where
  "jwt_verify t secretKey clock =
     (case secretKey of
        None \<Rightarrow> None
      | Some k \<Rightarrow>
          if k = [] then None
          else (case t of
                  Opaque s \<Rightarrow> None
                | Jwt k' payload i e \<Rightarrow>
                    if k' \<noteq> k then None
                    else if e \<le> clock then None
                    else Some payload))"

text \<open>
  The process environment and the other collaborators of a request: the configured signing
  secret (\<open>process.env.JWT_SECRET\<close>, possibly unset), the clock, the id drawn by
  \<open>Snowflake.generate()\<close>, the id the database draws for a row created without one, and the
  two functions of the password-hashing library.
\<close>

record env =
  JWT_SECRET :: "string option"
  clock :: nat
  snowflake :: string
  uuid :: string
  bcrypt_hash :: "string \<Rightarrow> string"
  bcrypt_compareSync :: "string \<Rightarrow> string \<Rightarrow> bool"

text \<open>\<open>req.headers.authorization?.split(" ")[1] || ""\<close>: the request carries the second word of
  the header when there is one.\<close>

definition accessToken_of :: "token option \<Rightarrow> token" where
  "accessToken_of authorization =
     (case authorization of None \<Rightarrow> Opaque [] | Some t \<Rightarrow> t)"

text \<open>\<open>generateAccessToken\<close> of the sign-up route: the payload is \<open>{ userId }\<close>.\<close>

definition generateAccessToken :: "env \<Rightarrow> string \<Rightarrow> token option" where
  "generateAccessToken e userId =
     jwt_sign [(''userId'', userId)] (JWT_SECRET e) (clock e)"

text \<open>The earlier revision of the same function signs with a literal key.\<close>

definition generateAccessToken_literal :: "env \<Rightarrow> string \<Rightarrow> token option" where
  "generateAccessToken_literal e userId =
     jwt_sign [(''userId'', userId)] (Some ''1x234'') (clock e)"

text \<open>The token issued inline by the sign-in route: the payload is \<open>{ id: user.id }\<close>.\<close>

definition signin_token :: "env \<Rightarrow> string \<Rightarrow> token option" where
  "signin_token e userId =
     jwt_sign [(''id'', userId)] (JWT_SECRET e) (clock e)"

text \<open>\<open>getUserIdFromAccessToken\<close>: \<open>decodedToken.id\<close>, or \<open>null\<close> when verification throws.\<close>

definition getUserIdFromAccessToken :: "env \<Rightarrow> token \<Rightarrow> jsval" where
  "getUserIdFromAccessToken e accessToken =
     (case jwt_verify accessToken (JWT_SECRET e) (clock e) of
        None \<Rightarrow> Null
      | Some decodedToken \<Rightarrow>
          (case map_of decodedToken ''id'' of None \<Rightarrow> Undefined | Some v \<Rightarrow> Str v))"

section \<open>Database\<close>

text \<open>The four tables of the schema, each a list of rows in insertion order.\<close>

record user =
  u_id :: string
  u_name :: "string option"
  u_email :: string
  u_password :: string
  u_created_at :: nat

record community =
  c_id :: string
  c_name :: string
  c_slug :: string
  c_owner :: string
  c_created_at :: nat
  c_updated_at :: nat

record role =
  r_id :: string
  r_name :: string
  r_created_at :: nat
  r_updated_at :: nat

record member =
  m_id :: string
  m_community :: string
  m_user :: string
  m_role :: string
  m_created_at :: nat

record db =
  users :: "user list"
  communities :: "community list"
  roles :: "role list"
  members :: "member list"

definition user_findUnique_id :: "db \<Rightarrow> string \<Rightarrow> user option" where
  "user_findUnique_id d i = find (\<lambda>u. u_id u = i) (users d)"

definition user_findUnique_email :: "db \<Rightarrow> string \<Rightarrow> user option" where
  "user_findUnique_email d em = find (\<lambda>u. u_email u = em) (users d)"

definition community_findUnique :: "db \<Rightarrow> string \<Rightarrow> community option" where
  "community_findUnique d i = find (\<lambda>c. c_id c = i) (communities d)"

definition role_findUnique :: "db \<Rightarrow> string \<Rightarrow> role option" where
  "role_findUnique d i = find (\<lambda>r. r_id r = i) (roles d)"

definition member_findUnique :: "db \<Rightarrow> string \<Rightarrow> member option" where
  "member_findUnique d i = find (\<lambda>m. m_id m = i) (members d)"

definition member_findFirst :: "db \<Rightarrow> string \<Rightarrow> string \<Rightarrow> member option" where
  "member_findFirst d cid uid =
     find (\<lambda>m. m_community m = cid \<and> m_user m = uid) (members d)"

text \<open>
  \<open>db.community.create\<close>: the insert throws (\<open>None\<close>) when the primary key or the unique
  slug is taken or the owner is not a user; otherwise the row is appended and returned.
\<close>

definition community_create :: "env \<Rightarrow> db \<Rightarrow> string \<Rightarrow> string \<Rightarrow> string \<Rightarrow> string \<Rightarrow> (community \<times> db) option" where
  "community_create e d i nm sl ow =
     (if list_ex (\<lambda>c. c_id c = i \<or> c_slug c = sl) (communities d)
         \<or> user_findUnique_id d ow = None
      then None
      else (let row = \<lparr>c_id = i, c_name = nm, c_slug = sl, c_owner = ow,
                       c_created_at = clock e, c_updated_at = clock e\<rparr>
            in Some (row, d\<lparr>communities := communities d @ [row]\<rparr>)))"

definition community_json :: "community \<Rightarrow> json" where
  "community_json c =
     JObj [(''id'', JStr (c_id c)), (''name'', JStr (c_name c)), (''slug'', JStr (c_slug c)),
           (''owner'', JStr (c_owner c)), (''created_at'', JNum (int (c_created_at c))),
           (''updated_at'', JNum (int (c_updated_at c)))]"

section \<open>Shared response shapes\<close>

definition internal_error :: response where
  "internal_error =
     \<lparr>status = 500,
      body = JObj [(''status'', JBool False),
                   (''errors'', JArr [JObj [(''message'', JStr ''Internal Server Error''),
                                           (''code'', JStr ''INTERNAL_SERVER_ERROR'')]])]\<rparr>"

definition not_signedin :: response where
  "not_signedin =
     \<lparr>status = 401,
      body = JObj [(''status'', JBool False),
                   (''errors'', JArr [JObj [(''message'', JStr ''You need to sign in to proceed.''),
                                           (''code'', JStr ''NOT_SIGNEDIN'')]])]\<rparr>"

text \<open>The \<open>ZodError\<close> branch of the community and auth routes: \<open>param\<close> is \<open>err.path[0]\<close>.\<close>

definition invalid_input_entry :: "issue \<Rightarrow> json" where
  "invalid_input_entry err =
     JObj ((case fst err of [] \<Rightarrow> [] | p # ps \<Rightarrow> [(''param'', JStr p)])
           @ [(''message'', JStr (snd err)), (''code'', JStr ''INVALID_INPUT'')])"

definition invalid_input :: "issue list \<Rightarrow> response" where
  "invalid_input errs =
     \<lparr>status = 400,
      body = JObj [(''status'', JBool False), (''errors'', JArr (map invalid_input_entry errs))]\<rparr>"

section \<open>Community routes\<close>

subsection \<open>Slug\<close>

text \<open>
  Strings are sequences of code units below 256. \<open>toLowerCase\<close> maps the capital letters of
  that range (A to Z, and the accented capitals 192 to 222 except the multiplication sign
  215) 32 places up; the class \<open>\s\<close> holds, in that range, tab, line feed, vertical tab, form
  feed, carriage return, space and the no-break space 160.
\<close>

definition toLowerCase_char :: "char \<Rightarrow> char" where
  "toLowerCase_char c =
     (let n = (of_char c :: nat)
      in if (65 \<le> n \<and> n \<le> 90) \<or> (192 \<le> n \<and> n \<le> 222 \<and> n \<noteq> 215)
         then char_of (n + 32) else c)"

definition toLowerCase :: "string \<Rightarrow> string" where
  "toLowerCase s = map toLowerCase_char s"

definition is_space :: "char \<Rightarrow> bool" where
  "is_space c = ((of_char c :: nat) \<in> {9, 10, 11, 12, 13, 32, 160})"

text \<open>
  \<open>s.replace(/\s+/g, "-")\<close>: scanning from the left, the first whitespace character starts a
  match, the match takes all the whitespace that follows, a hyphen is written for it, and
  the scan goes on behind the match.
\<close>

function replace_whitespace :: "string \<Rightarrow> string" where
  "replace_whitespace [] = []"
| "replace_whitespace (c # cs) =
     (if is_space c then CHR ''-'' # replace_whitespace (dropWhile is_space cs)
      else c # replace_whitespace cs)"
  by pat_completeness auto
termination
  by (relation "measure length") (auto simp: less_Suc_eq_le length_dropWhile_le)

definition generateSlug :: "string \<Rightarrow> string" where
  "generateSlug name = replace_whitespace (toLowerCase name)"

text \<open>
  The slug in the words of the specification: the lower-cased name is cut into its maximal
  runs (a run is a longest stretch of characters that are all whitespace or all not), and
  each whitespace run is replaced by one hyphen.
\<close>

fun runs :: "string \<Rightarrow> string list" where
  "runs [] = []"
| "runs (c # cs) =
     (case runs cs of
        [] \<Rightarrow> [[c]]
      | [] # rs \<Rightarrow> [c] # rs
      | (d # ds) # rs \<Rightarrow>
          if is_space d = is_space c then (c # d # ds) # rs else [c] # (d # ds) # rs)"

fun hyphen_for_run :: "string \<Rightarrow> string" where
  "hyphen_for_run [] = []"
| "hyphen_for_run (c # cs) = (if is_space c then ''-'' else c # cs)"

definition slug_spec :: "string \<Rightarrow> string" where
  "slug_spec name = concat (map hyphen_for_run (runs (toLowerCase name)))"

subsection \<open>POST /community\<close>

text \<open>The three outcomes of \<open>ownerId\<close> that are not a non-empty string are the cases of
  \<open>!ownerId\<close>.\<close>

definition post_community :: "env \<Rightarrow> db \<Rightarrow> token option \<Rightarrow> string parsed \<Rightarrow> response \<times> db" where
  "post_community e d authorization validated =
     (case validated of
        ZodError errs \<Rightarrow> (invalid_input errs, d)
      | Parsed name \<Rightarrow>
          (let slug = generateSlug name;
               ownerId = getUserIdFromAccessToken e (accessToken_of authorization)
           in case ownerId of
                Null \<Rightarrow> (not_signedin, d)
              | Undefined \<Rightarrow> (not_signedin, d)
              | Str owner \<Rightarrow>
                  if owner = [] then (not_signedin, d)
                  else (case community_create e d (snowflake e) name slug owner of
                          None \<Rightarrow> (internal_error, d)
                        | Some (row, d') \<Rightarrow>
                            (\<lparr>status = 201,
                              body = JObj [(''status'', JBool True),
                                           (''content'', JObj [(''data'', community_json row)])]\<rparr>,
                             d'))))"

subsection \<open>Pagination\<close>

text \<open>
  The \<open>page\<close> parameter reaches a handler as a string, or not at all (\<open>undefined\<close>); the
  community routes convert it with \<open>parseInt\<close>, the role route with \<open>Number\<close>. The outcome of
  a conversion is \<open>NaN\<close>, or an integer that the number format holds exactly (magnitude at
  most \<open>2^53\<close>), or \<open>Inexact\<close>: the text denotes a fraction, an infinity or an integer beyond
  that bound, and the number it is rounded to and the arithmetic of the handlers on it are
  floating point, outside this model.
\<close>

datatype jsnumber = NaN | Integer int | Inexact

definition exact :: "int \<Rightarrow> jsnumber" where
  "exact n = (if \<bar>n\<bar> \<le> 9007199254740992 then Integer n else Inexact)"

text \<open>The value of a character as a digit of the radix (2, 8, 10 or 16), if it is one.\<close>

definition digit_of :: "nat \<Rightarrow> char \<Rightarrow> nat option" where
  "digit_of radix c =
     (let n = (of_char c :: nat);
          v = (if 48 \<le> n \<and> n \<le> 57 then Some (n - 48)
               else if 97 \<le> n \<and> n \<le> 102 then Some (n - 87)
               else if 65 \<le> n \<and> n \<le> 70 then Some (n - 55)
               else None)
      in case v of None \<Rightarrow> None | Some k \<Rightarrow> if k < radix then Some k else None)"

definition is_digit :: "nat \<Rightarrow> char \<Rightarrow> bool" where
  "is_digit radix c = (digit_of radix c \<noteq> None)"

definition digits_value :: "nat \<Rightarrow> string \<Rightarrow> nat" where
  "digits_value radix ds =
     foldl (\<lambda>acc c. acc * radix + (case digit_of radix c of None \<Rightarrow> 0 | Some k \<Rightarrow> k)) 0 ds"

text \<open>
  \<open>parseInt(string)\<close> without a radix: leading whitespace is dropped, a sign is read, the
  prefix \<open>0x\<close> or \<open>0X\<close> selects radix 16 (radix 10 otherwise), and the longest run of digits
  that follows is the number; whatever comes behind it is ignored. No digit gives \<open>NaN\<close>.
  The white space of the language is, below 256, the class \<open>\s\<close>.
\<close>

definition parseInt :: "string \<Rightarrow> jsnumber" where
  "parseInt inputString =
     (let S = dropWhile is_space inputString;
          negative = (case S of [] \<Rightarrow> False | c # r \<Rightarrow> c = CHR ''-'');
          S1 = (case S of [] \<Rightarrow> S | c # r \<Rightarrow> if c = CHR ''+'' \<or> c = CHR ''-'' then r else S);
          hex = (case S1 of
                   a # b # r \<Rightarrow> a = CHR ''0'' \<and> (b = CHR ''x'' \<or> b = CHR ''X'')
                 | _ \<Rightarrow> False);
          R = (if hex then 16 else 10);
          S2 = (if hex then drop 2 S1 else S1);
          Z = takeWhile (is_digit R) S2
      in if Z = [] then NaN
         else exact (if negative then - int (digits_value R Z) else int (digits_value R Z)))"

text \<open>
  \<open>Number(string)\<close>: white space is trimmed on both sides; the empty string is 0; the rest
  must be, as a whole, a literal with prefix \<open>0x\<close>, \<open>0o\<close> or \<open>0b\<close> (no sign), or an optionally
  signed \<open>Infinity\<close>, or an optionally signed decimal literal: digits with an optional
  fraction, or a fraction that starts with the point, and an optional exponent. Anything
  else is \<open>NaN\<close>.
\<close>

definition strip :: "string \<Rightarrow> string" where
  "strip s = rev (dropWhile is_space (rev (dropWhile is_space s)))"

definition nondecimal :: "string \<Rightarrow> nat option" where
  "nondecimal t =
     (case t of
        a # b # ds \<Rightarrow>
          if a = CHR ''0'' \<and> ds \<noteq> [] then
            (if (b = CHR ''x'' \<or> b = CHR ''X'') \<and> list_all (is_digit 16) ds
               then Some (digits_value 16 ds)
             else if (b = CHR ''o'' \<or> b = CHR ''O'') \<and> list_all (is_digit 8) ds
               then Some (digits_value 8 ds)
             else if (b = CHR ''b'' \<or> b = CHR ''B'') \<and> list_all (is_digit 2) ds
               then Some (digits_value 2 ds)
             else None)
          else None
      | _ \<Rightarrow> None)"

text \<open>The exponent part that ends a decimal literal: absent (exponent 0), or \<open>e\<close> or \<open>E\<close>, an
  optional sign and at least one digit; \<open>None\<close> for anything else.\<close>

definition exponent :: "string \<Rightarrow> int option" where
  "exponent r =
     (case r of
        [] \<Rightarrow> Some 0
      | c # r1 \<Rightarrow>
          if c = CHR ''e'' \<or> c = CHR ''E'' then
            (let negative = (case r1 of [] \<Rightarrow> False | s # r2 \<Rightarrow> s = CHR ''-'');
                 ds = (case r1 of
                         [] \<Rightarrow> r1
                       | s # r2 \<Rightarrow> if s = CHR ''+'' \<or> s = CHR ''-'' then r2 else r1)
             in if ds \<noteq> [] \<and> list_all (is_digit 10) ds
                then Some (if negative then - int (digits_value 10 ds)
                           else int (digits_value 10 ds))
                else None)
          else None)"

definition Number :: "string \<Rightarrow> jsnumber" where
  "Number str =
     (let t = strip str
      in if t = [] then Integer 0
         else (case nondecimal t of
                 Some n \<Rightarrow> exact (int n)
               | None \<Rightarrow>
                   (let negative = (case t of [] \<Rightarrow> False | c # r \<Rightarrow> c = CHR ''-'');
                        u = (case t of
                               [] \<Rightarrow> t
                             | c # r \<Rightarrow> if c = CHR ''+'' \<or> c = CHR ''-'' then r else t)
                    in if u = ''Infinity'' then Inexact
                       else (let ip = takeWhile (is_digit 10) u;
                                 r1 = dropWhile (is_digit 10) u;
                                 point = (case r1 of [] \<Rightarrow> False | c # r \<Rightarrow> c = CHR ''.'');
                                 fp = (if point then takeWhile (is_digit 10) (drop 1 r1) else []);
                                 r2 = (if point then dropWhile (is_digit 10) (drop 1 r1) else r1)
                             in if ip = [] \<and> fp = [] then NaN
                                else (case exponent r2 of
                                        None \<Rightarrow> NaN
                                      | Some e \<Rightarrow>
                                          (let m = digits_value 10 (ip @ fp);
                                               scale = e - int (length fp);
                                               unit = 10 ^ nat (- scale)
                                           in if 0 \<le> scale
                                                then exact ((if negative then - int m else int m)
                                                            * 10 ^ nat scale)
                                              else if m mod unit = 0
                                                then exact (if negative then - int (m div unit)
                                                            else int (m div unit))
                                              else Inexact))))))"

text \<open>\<open>parseInt(req.query.page as string)\<close> and \<open>Number(req.query.page)\<close>: \<open>parseInt\<close> turns a
  missing parameter into the string \<open>undefined\<close>, and \<open>Number(undefined)\<close> is \<open>NaN\<close>.\<close>

definition parseInt_page :: "string option \<Rightarrow> jsnumber" where
  "parseInt_page q = parseInt (case q of None \<Rightarrow> ''undefined'' | Some s \<Rightarrow> s)"

definition Number_page :: "string option \<Rightarrow> jsnumber" where
  "Number_page q = (case q of None \<Rightarrow> NaN | Some s \<Rightarrow> Number s)"

text \<open>
  From the converted page on, a handler is a function of \<open>NaN\<close> (\<open>None\<close>) or the integer:
  \<open>with_page\<close> runs it there, and gives \<open>None\<close> on a number outside the model.
\<close>

definition with_page :: "jsnumber \<Rightarrow> (int option \<Rightarrow> 'a) \<Rightarrow> 'a option" where
  "with_page n handler =
     (case n of
        NaN \<Rightarrow> Some (handler None)
      | Integer k \<Rightarrow> Some (handler (Some k))
      | Inexact \<Rightarrow> None)"

text \<open>\<open>n || 1\<close> on the converted page (\<open>None\<close> is \<open>NaN\<close>): \<open>NaN\<close> and \<open>0\<close> are replaced by 1, and no
  other number is.\<close>

definition page_or_1 :: "int option \<Rightarrow> int" where
  "page_or_1 q = (case q of None \<Rightarrow> 1 | Some n \<Rightarrow> if n = 0 then 1 else n)"

text \<open>\<open>Math.ceil(total / perPage)\<close> on a row count.\<close>

definition ceil_div :: "nat \<Rightarrow> nat \<Rightarrow> nat" where
  "ceil_div count perPage =
     (if count mod perPage = 0 then count div perPage else count div perPage + 1)"

text \<open>\<open>findMany({ take, skip })\<close> on the rows that match: the database client rejects a
  negative \<open>skip\<close> (the call throws, \<open>None\<close>).\<close>

definition findMany_take_skip :: "nat \<Rightarrow> int \<Rightarrow> 'a list \<Rightarrow> 'a list option" where
  "findMany_take_skip tk skip rows =
     (if skip < 0 then None else Some (take tk (drop (nat skip) rows)))"

text \<open>The pagination of the two community list routes: the page of rows (when the query
  does not throw), the total and the number of pages.\<close>

definition community_page :: "'a list \<Rightarrow> int \<Rightarrow> ('a list \<times> nat \<times> nat) option" where
  "community_page rows page =
     (let perPage = 10;
          skip = (page - 1) * int perPage;
          totalCount = length rows;
          totalPages = ceil_div totalCount perPage
      in case findMany_take_skip perPage skip rows of
           None \<Rightarrow> None
         | Some found \<Rightarrow> Some (found, totalCount, totalPages))"

text \<open>\<open>Array.prototype.slice(start, end)\<close>: a negative index counts from the end, both are
  clamped to the array, and an empty range gives the empty array.\<close>

definition slice :: "'a list \<Rightarrow> int \<Rightarrow> int \<Rightarrow> 'a list" where
  "slice xs start end =
     (let len = int (length xs);
          k = (if start < 0 then max (len + start) 0 else min start len);
          final = (if end < 0 then max (len + end) 0 else min end len)
      in take (nat (final - k)) (drop (nat k) xs))"

text \<open>The pagination of the role list route: all rows are fetched and sliced.\<close>

definition role_page :: "'a list \<Rightarrow> int \<Rightarrow> 'a list \<times> nat \<times> nat" where
  "role_page rows page =
     (let count = length rows;
          itemsPerPage = 10;
          pages = ceil_div count itemsPerPage;
          startIndex = (page - 1) * int itemsPerPage;
          endIndex = page * int itemsPerPage
      in (slice rows startIndex endIndex, count, pages))"

definition meta_json :: "nat \<Rightarrow> nat \<Rightarrow> int \<Rightarrow> json" where
  "meta_json count pages page =
     JObj [(''total'', JNum (int count)), (''pages'', JNum (int pages)), (''page'', JNum page)]"

definition paginated :: "nat \<Rightarrow> nat \<Rightarrow> int \<Rightarrow> json list \<Rightarrow> response" where
  "paginated count pages page rows =
     \<lparr>status = 200,
      body = JObj [(''status'', JBool True),
                   (''content'', JObj [(''meta'', meta_json count pages page),
                                       (''data'', JArr rows)])]\<rparr>"

subsection \<open>GET /community\<close>

text \<open>The selected relation \<open>{ id, name }\<close> of a user; a nullable name is \<open>null\<close>. A row whose
  foreign key has no target cannot be stored; the model writes \<open>null\<close> for it.\<close>

definition user_ref_json :: "db \<Rightarrow> string \<Rightarrow> json" where
  "user_ref_json d uid =
     (case user_findUnique_id d uid of
        None \<Rightarrow> JNull
      | Some u \<Rightarrow> JObj [(''id'', JStr (u_id u)),
                        (''name'', (case u_name u of None \<Rightarrow> JNull | Some n \<Rightarrow> JStr n))])"

definition community_select_json :: "db \<Rightarrow> community \<Rightarrow> json" where
  "community_select_json d c =
     JObj [(''id'', JStr (c_id c)), (''name'', JStr (c_name c)), (''slug'', JStr (c_slug c)),
           (''created_at'', JNum (int (c_created_at c))),
           (''updated_at'', JNum (int (c_updated_at c))),
           (''ownerId'', user_ref_json d (c_owner c))]"

definition get_community :: "db \<Rightarrow> int option \<Rightarrow> response" where
  "get_community d query_page =
     (let page = page_or_1 query_page
      in case community_page (communities d) page of
           None \<Rightarrow> internal_error
         | Some (found, totalCount, totalPages) \<Rightarrow>
             paginated totalCount totalPages page (map (community_select_json d) found))"

subsection \<open>GET /community/:id/members\<close>

definition role_ref_json :: "role \<Rightarrow> json" where
  "role_ref_json r = JObj [(''id'', JStr (r_id r)), (''name'', JStr (r_name r))]"

text \<open>
  The distinct role ids of the page are loaded in one query and joined in memory;
  \<open>roles.find\<close> gives \<open>undefined\<close> for a role that is not among them, and the field is then
  absent.
\<close>

definition get_members :: "db \<Rightarrow> string \<Rightarrow> int option \<Rightarrow> response" where
  "get_members d cid query_page =
     (let page = page_or_1 query_page
      in case community_page (filter (\<lambda>m. m_community m = cid) (members d)) page of
           None \<Rightarrow> internal_error
         | Some (found, totalMembers, totalPages) \<Rightarrow>
             (let roleIds = remdups (map m_role found);
                  loaded = filter (\<lambda>r. r_id r \<in> set roleIds) (roles d);
                  responseData =
                    map (\<lambda>m. JObj ([(''id'', JStr (m_id m)),
                                     (''community'', JStr (m_community m)),
                                     (''user'', user_ref_json d (m_user m))]
                                    @ (case find (\<lambda>r. r_id r = m_role m) loaded of
                                         None \<Rightarrow> []
                                       | Some r \<Rightarrow> [(''role'', role_ref_json r)])
                                    @ [(''created_at'', JNum (int (m_created_at m)))]))
                        found
              in paginated totalMembers totalPages page responseData))"

section \<open>Role routes\<close>

definition role_json :: "role \<Rightarrow> json" where
  "role_json r =
     JObj [(''id'', JStr (r_id r)), (''name'', JStr (r_name r)),
           (''created_at'', JNum (int (r_created_at r))),
           (''updated_at'', JNum (int (r_updated_at r)))]"

definition get_role :: "db \<Rightarrow> int option \<Rightarrow> response" where
  "get_role d query_page =
     (let page = page_or_1 query_page
      in case role_page (roles d) page of
           (paginatedRoles, count, pages) \<Rightarrow>
             paginated count pages page (map role_json paginatedRoles))"

section \<open>The paginated routes on the raw parameter\<close>

text \<open>Each list route converts the \<open>page\<close> parameter of the request and goes on as above.\<close>

definition get_community_request :: "db \<Rightarrow> string option \<Rightarrow> response option" where
  "get_community_request d q = with_page (parseInt_page q) (get_community d)"

definition get_members_request :: "db \<Rightarrow> string \<Rightarrow> string option \<Rightarrow> response option" where
  "get_members_request d cid q = with_page (parseInt_page q) (get_members d cid)"

definition get_role_request :: "db \<Rightarrow> string option \<Rightarrow> response option" where
  "get_role_request d q = with_page (Number_page q) (get_role d)"

section \<open>Member routes\<close>

record member_body =
  b_community :: string
  b_user :: string
  b_role :: string

definition not_allowed :: response where
  "not_allowed =
     \<lparr>status = 403,
      body = JObj [(''status'', JBool False),
                   (''errors'',
                    JArr [JObj [(''message'', JStr ''You are not authorized to perform this action.''),
                                (''code'', JStr ''NOT_ALLOWED_ACCESS'')]])]\<rparr>"

definition resource_not_found :: "string \<Rightarrow> string \<Rightarrow> response" where
  "resource_not_found param msg =
     \<lparr>status = 404,
      body = JObj [(''status'', JBool False),
                   (''errors'', JArr [JObj [(''param'', JStr param), (''message'', JStr msg),
                                           (''code'', JStr ''RESOURCE_NOT_FOUND'')]])]\<rparr>"

definition already_member :: response where
  "already_member =
     \<lparr>status = 400,
      body = JObj [(''status'', JBool False),
                   (''errors'',
                    JArr [JObj [(''message'', JStr ''User is already added in the community.''),
                                (''code'', JStr ''RESOURCE_EXISTS'')]])]\<rparr>"

definition member_not_found :: response where
  "member_not_found =
     \<lparr>status = 404,
      body = JObj [(''status'', JBool False),
                   (''errors'', JArr [JObj [(''message'', JStr ''Member not found.''),
                                           (''code'', JStr ''RESOURCE_NOT_FOUND'')]])]\<rparr>"

text \<open>The \<open>ZodError\<close> branch of the member route: \<open>path\<close> is \<open>err.path.join(".")\<close>.\<close>

fun join_dot :: "string list \<Rightarrow> string" where
  "join_dot [] = []"
| "join_dot [p] = p"
| "join_dot (p # q # ps) = p @ ''.'' @ join_dot (q # ps)"

definition validation_error :: "issue list \<Rightarrow> response" where
  "validation_error errs =
     \<lparr>status = 400,
      body = JObj [(''status'', JBool False),
                   (''errors'',
                    JArr (map (\<lambda>err. JObj [(''message'', JStr (snd err)),
                                             (''code'', JStr ''VALIDATION_ERROR''),
                                             (''path'', JStr (join_dot (fst err)))])
                              errs))]\<rparr>"

definition member_json :: "member \<Rightarrow> json" where
  "member_json m =
     JObj [(''id'', JStr (m_id m)), (''community'', JStr (m_community m)),
           (''user'', JStr (m_user m)), (''role'', JStr (m_role m)),
           (''created_at'', JNum (int (m_created_at m)))]"

text \<open>
  \<open>db.member.create\<close>: the database draws the id of the row, taken to be new; the insert
  throws (\<open>None\<close>) when one of the three foreign keys has no target.
\<close>

definition member_create :: "env \<Rightarrow> db \<Rightarrow> string \<Rightarrow> string \<Rightarrow> string \<Rightarrow> (member \<times> db) option" where
  "member_create e d cid uid rid =
     (if community_findUnique d cid = None \<or> user_findUnique_id d uid = None
         \<or> role_findUnique d rid = None
      then None
      else (let row = \<lparr>m_id = uuid e, m_community = cid, m_user = uid, m_role = rid,
                       m_created_at = clock e\<rparr>
            in Some (row, d\<lparr>members := members d @ [row]\<rparr>)))"

definition checkIfUserIsCommunityAdmin :: "db \<Rightarrow> jsval \<Rightarrow> string \<Rightarrow> bool" where
  "checkIfUserIsCommunityAdmin d userId communityId =
     (if falsy userId then False
      else (case community_findUnique d communityId of
              None \<Rightarrow> False
            | Some c \<Rightarrow> Str (c_owner c) = userId))"

subsection \<open>POST /member\<close>

definition post_member :: "env \<Rightarrow> db \<Rightarrow> token option \<Rightarrow> member_body parsed \<Rightarrow> response \<times> db" where
  "post_member e d authorization validated =
     (case validated of
        ZodError errs \<Rightarrow> (validation_error errs, d)
      | Parsed requestBody \<Rightarrow>
          (let community = b_community requestBody;
               user = b_user requestBody;
               role = b_role requestBody;
               userId = getUserIdFromAccessToken e (accessToken_of authorization);
               isAdmin = checkIfUserIsCommunityAdmin d userId community
           in if \<not> isAdmin then (not_allowed, d)
              else if community_findUnique d community = None
                then (resource_not_found ''community'' ''Community not found.'', d)
              else if role_findUnique d role = None
                then (resource_not_found ''role'' ''Role not found.'', d)
              else if user_findUnique_id d user = None
                then (resource_not_found ''user'' ''User not found.'', d)
              else if member_findFirst d community user \<noteq> None
                then (already_member, d)
              else (case member_create e d community user role of
                      None \<Rightarrow> (internal_error, d)
                    | Some (newMember, d') \<Rightarrow>
                        (\<lparr>status = 200,
                          body = JObj [(''status'', JBool True),
                                       (''content'', JObj [(''data'', member_json newMember)])]\<rparr>,
                         d'))))"

subsection \<open>DELETE /member/:id\<close>

text \<open>
  An \<open>async\<close> function returns a promise: fulfilled with the value of its \<open>return\<close>, or
  rejected when its body throws. A promise is an object, and every object is truthy,
  whatever it settles to.
\<close>

datatype 'a promise = Fulfilled 'a | Rejected

fun truthy_promise :: "'a promise \<Rightarrow> bool" where
  "truthy_promise (Fulfilled v) = True"
| "truthy_promise Rejected = True"

text \<open>\<open>member.role_fk.name\<close>: the name of the role the membership refers to.\<close>

definition role_fk_name :: "db \<Rightarrow> member \<Rightarrow> string option" where
  "role_fk_name d m = map_option r_name (role_findUnique d (m_role m))"

text \<open>
  \<open>checkIfUserIsCommunityAdminOrModerator\<close>: the user is loaded with all memberships, of
  every community. The lookup throws when the id is \<open>null\<close> or \<open>undefined\<close>;
  \<open>user?.member.some(...)\<close> is \<open>undefined\<close> (\<open>None\<close>) when no user has the id.
\<close>

definition checkIfUserIsCommunityAdminOrModerator :: "env \<Rightarrow> db \<Rightarrow> token \<Rightarrow> bool option promise" where
  "checkIfUserIsCommunityAdminOrModerator e d accessToken =
     (case getUserIdFromAccessToken e accessToken of
        Str userId \<Rightarrow>
          (case user_findUnique_id d userId of
             None \<Rightarrow> Fulfilled None
           | Some u \<Rightarrow>
               Fulfilled (Some (list_ex (\<lambda>m. role_fk_name d m = Some ''Community Admin''
                                            \<or> role_fk_name d m = Some ''Community Moderator'')
                                        (filter (\<lambda>m. m_user m = u_id u) (members d)))))
      | Null \<Rightarrow> Rejected
      | Undefined \<Rightarrow> Rejected)"

text \<open>The handler tests the promise itself: the call is not awaited.\<close>

definition delete_member :: "env \<Rightarrow> db \<Rightarrow> token option \<Rightarrow> string \<Rightarrow> response \<times> db" where
  "delete_member e d authorization memberId =
     (case member_findUnique d memberId of
        None \<Rightarrow> (member_not_found, d)
      | Some existingMember \<Rightarrow>
          (let accessToken = accessToken_of authorization;
               isAdminOrModerator = checkIfUserIsCommunityAdminOrModerator e d accessToken
           in if \<not> truthy_promise isAdminOrModerator then (not_allowed, d)
              else (\<lparr>status = 200, body = JObj [(''status'', JBool True)]\<rparr>,
                    d\<lparr>members := filter (\<lambda>m. m_id m \<noteq> memberId) (members d)\<rparr>)))"

section \<open>Auth routes\<close>

record signup_body =
  s_name :: string
  s_email :: string
  s_password :: string

record signin_body =
  i_email :: string
  i_password :: string

text \<open>\<open>db.user.create\<close>: the insert throws (\<open>None\<close>) when the primary key or the unique email
  is taken.\<close>

definition user_create :: "env \<Rightarrow> db \<Rightarrow> string \<Rightarrow> string \<Rightarrow> string \<Rightarrow> string \<Rightarrow> (user \<times> db) option" where
  "user_create e d i nm em pw =
     (if list_ex (\<lambda>u. u_id u = i \<or> u_email u = em) (users d) then None
      else (let row = \<lparr>u_id = i, u_name = Some nm, u_email = em, u_password = pw,
                       u_created_at = clock e\<rparr>
            in Some (row, d\<lparr>users := users d @ [row]\<rparr>)))"

subsection \<open>POST /auth/signup\<close>

definition email_exists :: response where
  "email_exists =
     \<lparr>status = 409,
      body = JObj [(''status'', JBool False),
                   (''errors'',
                    JArr [JObj [(''param'', JStr ''email''),
                                (''message'', JStr ''User with this email address already exists.''),
                                (''code'', JStr ''RESOURCE_EXISTS'')]])]\<rparr>"

definition signup :: "env \<Rightarrow> db \<Rightarrow> signup_body parsed \<Rightarrow> response \<times> db" where
  "signup e d validated =
     (case validated of
        ZodError errs \<Rightarrow> (invalid_input errs, d)
      | Parsed validatedData \<Rightarrow>
          (case user_findUnique_email d (s_email validatedData) of
             Some existingUser \<Rightarrow> (email_exists, d)
           | None \<Rightarrow>
               (let hashedPassword = bcrypt_hash e (s_password validatedData);
                    userId = snowflake e
                in case user_create e d userId (s_name validatedData) (s_email validatedData)
                          hashedPassword of
                     None \<Rightarrow> (internal_error, d)
                   | Some (u, d') \<Rightarrow>
                       (case generateAccessToken e (u_id u) of
                          None \<Rightarrow> (internal_error, d')
                        | Some accessToken \<Rightarrow>
                            (\<lparr>status = 200,
                              body = JObj [(''status'', JBool True),
                                           (''content'',
                                            JObj [(''data'',
                                                   JObj [(''id'', JStr (u_id u)),
                                                         (''name'', (case u_name u of
                                                                       None \<Rightarrow> JNull
                                                                     | Some n \<Rightarrow> JStr n)),
                                                         (''email'', JStr (u_email u)),
                                                         (''created_at'',
                                                          JNum (int (u_created_at u)))]),
                                                  (''meta'',
                                                   JObj [(''access_token'',
                                                          JTok accessToken)])])]\<rparr>,
                             d')))))"

subsection \<open>POST /auth/signin\<close>

definition invalid_credentials :: response where
  "invalid_credentials =
     \<lparr>status = 401,
      body = JObj [(''status'', JBool False),
                   (''errors'',
                    JArr [JObj [(''param'', JStr ''password''),
                                (''message'', JStr ''The credentials you provided are invalid.''),
                                (''code'', JStr ''INVALID_CREDENTIALS'')]])]\<rparr>"

text \<open>The stored row as the object the database client returns: all its scalar columns.\<close>

definition user_object :: "user \<Rightarrow> (string \<times> json) list" where
  "user_object u =
     [(''id'', JStr (u_id u)),
      (''name'', (case u_name u of None \<Rightarrow> JNull | Some n \<Rightarrow> JStr n)),
      (''email'', JStr (u_email u)),
      (''password'', JStr (u_password u)),
      (''created_at'', JNum (int (u_created_at u)))]"

text \<open>\<open>const { password, ...userData } = user\<close>: every property but \<open>password\<close>.\<close>

definition without_password :: "(string \<times> json) list \<Rightarrow> (string \<times> json) list" where
  "without_password obj = filter (\<lambda>kv. fst kv \<noteq> ''password'') obj"

definition signin :: "env \<Rightarrow> db \<Rightarrow> signin_body parsed \<Rightarrow> response" where
  "signin e d validated =
     (case validated of
        ZodError errs \<Rightarrow> invalid_input errs
      | Parsed validatedData \<Rightarrow>
          (case user_findUnique_email d (i_email validatedData) of
             None \<Rightarrow> invalid_credentials
           | Some u \<Rightarrow>
               if \<not> bcrypt_compareSync e (i_password validatedData) (u_password u)
               then invalid_credentials
               else (case signin_token e (u_id u) of
                       None \<Rightarrow> internal_error
                     | Some accessToken \<Rightarrow>
                         (let userData = without_password (user_object u)
                          in \<lparr>status = 200,
                              body = JObj [(''status'', JBool True),
                                           (''content'',
                                            JObj [(''data'', JObj userData),
                                                  (''meta'',
                                                   JObj [(''access_token'',
                                                          JTok accessToken)])])]\<rparr>))))"

section \<open>Membership invariant\<close>

text \<open>At most one membership per pair of community and user.\<close>

definition unique_membership :: "db \<Rightarrow> bool" where
  "unique_membership d = distinct (map (\<lambda>m. (m_community m, m_user m)) (members d))"

section \<open>A concrete installation\<close>

text \<open>
  Two users, Alice and Bob; Alice owns the community \<open>c1\<close>; one role, named Member; Bob is
  a member of \<open>c1\<close> with that role. Both hold a token issued by the sign-in route 100
  seconds before the clock reading.
\<close>

definition env_ex :: env where
  "env_ex =
     \<lparr>JWT_SECRET = Some ''s3cret'', clock = 1000, snowflake = ''7001'', uuid = ''m2'',
      bcrypt_hash = (\<lambda>p. ''h:'' @ p),
      bcrypt_compareSync = (\<lambda>p h. h = ''h:'' @ p)\<rparr>"

definition db_ex :: db where
  "db_ex =
     \<lparr>users = [\<lparr>u_id = ''u1'', u_name = Some ''Alice'', u_email = ''alice@example.com'',
                 u_password = ''h:wonderland'', u_created_at = 10\<rparr>,
               \<lparr>u_id = ''u2'', u_name = Some ''Bob'', u_email = ''bob@example.com'',
                 u_password = ''h:builder1'', u_created_at = 20\<rparr>],
      communities = [\<lparr>c_id = ''c1'', c_name = ''Test Club'', c_slug = ''test-club'',
                       c_owner = ''u1'', c_created_at = 30, c_updated_at = 30\<rparr>],
      roles = [\<lparr>r_id = ''r1'', r_name = ''Member'', r_created_at = 40, r_updated_at = 40\<rparr>],
      members = [\<lparr>m_id = ''m1'', m_community = ''c1'', m_user = ''u2'', m_role = ''r1'',
                   m_created_at = 50\<rparr>]\<rparr>"

definition alice_token :: token where
  "alice_token = Jwt ''s3cret'' [(''id'', ''u1'')] 900 4500"

definition bob_token :: token where
  "bob_token = Jwt ''s3cret'' [(''id'', ''u2'')] 900 4500"

text \<open>The same installation with eleven roles.\<close>

definition db_eleven_roles :: db where
  "db_eleven_roles =
     db_ex\<lparr>roles := map (\<lambda>n. \<lparr>r_id = n, r_name = n, r_created_at = 40, r_updated_at = 40\<rparr>)
                        [''a'', ''b'', ''c'', ''d'', ''e'', ''f'', ''g'', ''h'', ''i'', ''j'',
                         ''k'']\<rparr>"

section \<open>Evaluation rules\<close>

lemmas ex_defs = env_ex_def db_ex_def alice_token_def bob_token_def

lemmas tok_defs = getUserIdFromAccessToken_def jwt_verify_def jwt_sign_def accessToken_of_def

lemmas find_defs = user_findUnique_id_def user_findUnique_email_def community_findUnique_def
  role_findUnique_def member_findUnique_def member_findFirst_def

section \<open>Deleting a membership\<close>

text \<open>
  Whatever the credential, a request for an existing membership deletes it: the promise
  returned by the role check is truthy before it settles, so the 403 branch never runs.
\<close>

lemma delete_member_never_forbidden:
  "member_findUnique d memberId = Some m \<Longrightarrow>
   delete_member e d authorization memberId =
     (\<lparr>status = 200, body = JObj [(''status'', JBool True)]\<rparr>,
      d\<lparr>members := filter (\<lambda>m. m_id m \<noteq> memberId) (members d)\<rparr>)"
  by (cases "checkIfUserIsCommunityAdminOrModerator e d (accessToken_of authorization)")
     (simp_all add: delete_member_def)

text \<open>
  Claim C1 says that DELETE /member/:id for an existing membership, with a credential that
  identifies no holder of a role named Community Admin or Community Moderator, returns 403
  NOT_ALLOWED_ACCESS and deletes nothing. The code does otherwise: Bob holds only the role
  Member, the role check for his token settles to \<open>false\<close>, and yet his request for the
  membership \<open>m1\<close> is answered 200 and the membership is gone.
\<close>

theorem delete_member_check_not_awaited:
  "member_findUnique db_ex ''m1'' \<noteq> None
   \<and> checkIfUserIsCommunityAdminOrModerator env_ex db_ex bob_token = Fulfilled (Some False)
   \<and> delete_member env_ex db_ex (Some bob_token) ''m1'' =
       (\<lparr>status = 200, body = JObj [(''status'', JBool True)]\<rparr>, db_ex\<lparr>members := []\<rparr>)"
  by (simp add: delete_member_def checkIfUserIsCommunityAdminOrModerator_def role_fk_name_def
      ex_defs tok_defs find_defs)

section \<open>Issuing and verifying tokens\<close>

text \<open>With a signing secret configured, a token of the sign-in route verifies to the user
  id it was issued for.\<close>

lemma signin_token_roundtrip:
  "JWT_SECRET e = Some k \<Longrightarrow> k \<noteq> [] \<Longrightarrow>
   map_option (getUserIdFromAccessToken e) (signin_token e userId) = Some (Str userId)"
  by (simp add: signin_token_def tok_defs)

text \<open>A token of the sign-up route carries the id under the name \<open>userId\<close>, and the verifier
  reads \<open>id\<close>: it finds nothing.\<close>

lemma signup_token_undefined:
  "JWT_SECRET e = Some k \<Longrightarrow> k \<noteq> [] \<Longrightarrow>
   map_option (getUserIdFromAccessToken e) (generateAccessToken e userId) = Some Undefined"
  by (simp add: generateAccessToken_def tok_defs)

text \<open>The earlier revision signs with the literal key: unless the configured secret is that
  very key, verification throws.\<close>

lemma literal_token_rejected:
  "JWT_SECRET e \<noteq> Some ''1x234'' \<Longrightarrow>
   map_option (getUserIdFromAccessToken e) (generateAccessToken_literal e userId) = Some Null"
  by (auto simp: generateAccessToken_literal_def tok_defs split: option.splits)

text \<open>
  Claim C2 says that verifying a token right after it is issued returns the user id it was
  issued for, on the sign-up path as on the sign-in path. The code does so on the sign-in
  path only: the token that sign-up issues for the user id 7001 verifies to \<open>undefined\<close>,
  while the token that sign-in issues for the same id verifies to 7001.
\<close>

theorem signup_token_not_verified:
  "generateAccessToken env_ex ''7001'' = Some (Jwt ''s3cret'' [(''userId'', ''7001'')] 1000 4600)
   \<and> getUserIdFromAccessToken env_ex (Jwt ''s3cret'' [(''userId'', ''7001'')] 1000 4600) = Undefined
   \<and> signin_token env_ex ''7001'' = Some (Jwt ''s3cret'' [(''id'', ''7001'')] 1000 4600)
   \<and> getUserIdFromAccessToken env_ex (Jwt ''s3cret'' [(''id'', ''7001'')] 1000 4600) = Str ''7001''"
  by (simp add: generateAccessToken_def signin_token_def ex_defs tok_defs)

section \<open>Adding a membership\<close>

text \<open>A community id that resolves to nothing fails the owner check, which runs first.\<close>

lemma post_member_unknown_community:
  "community_findUnique d (b_community b) = None \<Longrightarrow>
   post_member e d authorization (Parsed b) = (not_allowed, d)"
  by (simp add: post_member_def checkIfUserIsCommunityAdmin_def Let_def)

text \<open>
  Claim C3 says that POST /member with a community id that resolves to no community fails
  with 404, param \<open>community\<close>, code RESOURCE_NOT_FOUND. The code answers 403
  NOT_ALLOWED_ACCESS instead, here to Alice asking for the unknown community \<open>c404\<close>: the
  404 branch for the community comes after the owner check, which no request for an
  unknown community passes.
\<close>

theorem post_member_unknown_community_forbidden:
  "community_findUnique db_ex ''c404'' = None
   \<and> post_member env_ex db_ex (Some alice_token)
        (Parsed \<lparr>b_community = ''c404'', b_user = ''u2'', b_role = ''r1''\<rparr>) = (not_allowed, db_ex)
   \<and> status not_allowed = 403"
  by (simp add: post_member_def checkIfUserIsCommunityAdmin_def Let_def not_allowed_def
      ex_defs tok_defs find_defs)

text \<open>The outcomes of a validated request: either nothing is written, or every check has
  passed and exactly the new row is appended.\<close>

lemma member_findFirst_None_iff:
  "member_findFirst d c u = None
     \<longleftrightarrow> (c, u) \<notin> set (map (\<lambda>m. (m_community m, m_user m)) (members d))"
  by (auto simp: member_findFirst_def find_None_iff)

lemma post_member_cases:
  "post_member e d authorization (Parsed b) = (res, d') \<Longrightarrow>
     (status res \<noteq> 200 \<and> d' = d)
   \<or> (status res = 200
      \<and> checkIfUserIsCommunityAdmin d (getUserIdFromAccessToken e (accessToken_of authorization))
            (b_community b)
      \<and> community_findUnique d (b_community b) \<noteq> None
      \<and> role_findUnique d (b_role b) \<noteq> None
      \<and> user_findUnique_id d (b_user b) \<noteq> None
      \<and> member_findFirst d (b_community b) (b_user b) = None
      \<and> d' = d\<lparr>members := members d @
                  [\<lparr>m_id = uuid e, m_community = b_community b, m_user = b_user b,
                    m_role = b_role b, m_created_at = clock e\<rparr>]\<rparr>)"
  by (auto simp: post_member_def Let_def member_create_def not_allowed_def resource_not_found_def
        already_member_def internal_error_def split: if_splits option.splits)

lemma post_member_invalid_body:
  "post_member e d authorization (ZodError errs) = (validation_error errs, d)"
  by (simp add: post_member_def)

lemma post_member_preserves_unique:
  assumes "unique_membership d"
  shows "unique_membership (snd (post_member e d authorization validated))"
proof (cases validated)
  case (ZodError errs)
  with assms show ?thesis by (simp add: post_member_invalid_body)
next
  case (Parsed b)
  obtain res d' where r: "post_member e d authorization (Parsed b) = (res, d')"
    by (cases "post_member e d authorization (Parsed b)")
  from post_member_cases[OF r] assms show ?thesis
    unfolding Parsed r
    by (auto simp: unique_membership_def member_findFirst_None_iff)
qed

lemma delete_member_preserves_unique:
  assumes "unique_membership d"
  shows "unique_membership (snd (delete_member e d authorization memberId))"
proof (cases "member_findUnique d memberId")
  case None
  with assms show ?thesis by (simp add: delete_member_def)
next
  case (Some m)
  from assms show ?thesis
    unfolding delete_member_never_forbidden[OF Some]
    by (simp add: unique_membership_def distinct_map_filter)
qed

text \<open>
  Claim C4, amended. Every POST /member, and every DELETE /member/:id, keeps the invariant
  that a pair of community and user has at most one membership. A POST /member request for a pair that already has one never changes
  the state; it is answered with AlreadyMember (400, RESOURCE_EXISTS), whatever role it
  names among those that resolve, when the caller owns the community and the user id
  resolves, since those checks come first. A request that is not answered 200 writes
  nothing, and one that is has passed the owner check and the four pre-checks and has
  appended the one new row.
\<close>

theorem membership_unique_amended:
  assumes "unique_membership d"
  shows "unique_membership (snd (post_member e d authorization validated))
    \<and> unique_membership (snd (delete_member e d authorization memberId))
    \<and> (member_findFirst d (b_community b) (b_user b) \<noteq> None \<longrightarrow>
         snd (post_member e d authorization (Parsed b)) = d
         \<and> (checkIfUserIsCommunityAdmin d
               (getUserIdFromAccessToken e (accessToken_of authorization)) (b_community b)
            \<and> role_findUnique d (b_role b) \<noteq> None
            \<and> user_findUnique_id d (b_user b) \<noteq> None \<longrightarrow>
              fst (post_member e d authorization (Parsed b)) = already_member))
    \<and> status already_member = 400
    \<and> (status (fst (post_member e d authorization (Parsed b))) \<noteq> 200 \<longrightarrow>
         snd (post_member e d authorization (Parsed b)) = d)
    \<and> (status (fst (post_member e d authorization (Parsed b))) = 200 \<longrightarrow>
         checkIfUserIsCommunityAdmin d
            (getUserIdFromAccessToken e (accessToken_of authorization)) (b_community b)
         \<and> community_findUnique d (b_community b) \<noteq> None
         \<and> role_findUnique d (b_role b) \<noteq> None
         \<and> user_findUnique_id d (b_user b) \<noteq> None
         \<and> member_findFirst d (b_community b) (b_user b) = None
         \<and> snd (post_member e d authorization (Parsed b)) =
             d\<lparr>members := members d @
                  [\<lparr>m_id = uuid e, m_community = b_community b, m_user = b_user b,
                    m_role = b_role b, m_created_at = clock e\<rparr>]\<rparr>)"
proof -
  obtain res d' where r: "post_member e d authorization (Parsed b) = (res, d')"
    by (cases "post_member e d authorization (Parsed b)")
  note c = post_member_cases[OF r]
  have 1: "unique_membership (snd (post_member e d authorization validated))"
    using assms by (rule post_member_preserves_unique)
  have 2: "member_findFirst d (b_community b) (b_user b) \<noteq> None \<Longrightarrow> d' = d"
    using c by auto
  have 3: "member_findFirst d (b_community b) (b_user b) \<noteq> None \<Longrightarrow>
        checkIfUserIsCommunityAdmin d
               (getUserIdFromAccessToken e (accessToken_of authorization)) (b_community b) \<Longrightarrow>
        role_findUnique d (b_role b) \<noteq> None \<Longrightarrow> user_findUnique_id d (b_user b) \<noteq> None \<Longrightarrow>
        res = already_member"
    using r by (auto simp: post_member_def Let_def checkIfUserIsCommunityAdmin_def
        split: if_splits option.splits)
  have 4: "status already_member = 400" by (simp add: already_member_def)
  have 5: "unique_membership (snd (delete_member e d authorization memberId))"
    using assms by (rule delete_member_preserves_unique)
  from 1 2 3 4 5 c show ?thesis unfolding r by auto
qed

text \<open>Alice, the owner of \<open>c1\<close>, adds Bob a second time: AlreadyMember, nothing written.\<close>

theorem membership_unique_amended_witness:
  "unique_membership db_ex
   \<and> post_member env_ex db_ex (Some alice_token)
        (Parsed \<lparr>b_community = ''c1'', b_user = ''u2'', b_role = ''r1''\<rparr>) = (already_member, db_ex)"
proof -
  have inv: "unique_membership db_ex"
    by (simp add: unique_membership_def db_ex_def)
  have pre: "member_findFirst db_ex ''c1'' ''u2'' \<noteq> None"
    "checkIfUserIsCommunityAdmin db_ex
       (getUserIdFromAccessToken env_ex (accessToken_of (Some alice_token))) ''c1''"
    "role_findUnique db_ex ''r1'' \<noteq> None" "user_findUnique_id db_ex ''u2'' \<noteq> None"
    by (simp_all add: checkIfUserIsCommunityAdmin_def ex_defs tok_defs find_defs)
  from membership_unique_amended[OF inv, where e = env_ex and authorization = "Some alice_token"
      and validated = "Parsed \<lparr>b_community = ''c1'', b_user = ''u2'', b_role = ''r1''\<rparr>"
      and b = "\<lparr>b_community = ''c1'', b_user = ''u2'', b_role = ''r1''\<rparr>"] pre inv
  show ?thesis by (simp add: prod_eq_iff)
qed

text \<open>
  Claim C4 as stated fails: Bob is a member of \<open>c1\<close> already, and Alice's request to add
  him with a role id that resolves to nothing is answered 404 for the role, not
  AlreadyMember.
\<close>

theorem duplicate_with_unknown_role_counterexample:
  "unique_membership db_ex
   \<and> member_findFirst db_ex ''c1'' ''u2'' \<noteq> None
   \<and> post_member env_ex db_ex (Some alice_token)
        (Parsed \<lparr>b_community = ''c1'', b_user = ''u2'', b_role = ''r404''\<rparr>) =
       (resource_not_found ''role'' ''Role not found.'', db_ex)
   \<and> status (resource_not_found ''role'' ''Role not found.'') = 404
   \<and> resource_not_found ''role'' ''Role not found.'' \<noteq> already_member"
  by (simp add: unique_membership_def post_member_def checkIfUserIsCommunityAdmin_def Let_def
      resource_not_found_def already_member_def ex_defs tok_defs find_defs)

text \<open>
  Claim C5. For a POST /member request whose credential verifies to a user id (ids are
  never the empty string): when that user is not the owner of the target community, or
  there is no such community, the answer is 403 NOT_ALLOWED_ACCESS and nothing is written;
  when that user is the owner, the role and user ids resolve and the pair has no
  membership, the membership is appended to the table and returned with 200.
\<close>

theorem add_member_owner_only:
  assumes "getUserIdFromAccessToken e (accessToken_of authorization) = Str uid" and "uid \<noteq> []"
  shows "((\<forall>c. community_findUnique d (b_community b) = Some c \<longrightarrow> c_owner c \<noteq> uid) \<longrightarrow>
            post_member e d authorization (Parsed b) = (not_allowed, d))
       \<and> ((\<exists>c. community_findUnique d (b_community b) = Some c \<and> c_owner c = uid)
            \<and> role_findUnique d (b_role b) \<noteq> None
            \<and> user_findUnique_id d (b_user b) \<noteq> None
            \<and> member_findFirst d (b_community b) (b_user b) = None \<longrightarrow>
            post_member e d authorization (Parsed b) =
              (\<lparr>status = 200,
                body = JObj [(''status'', JBool True),
                             (''content'',
                              JObj [(''data'',
                                     member_json \<lparr>m_id = uuid e, m_community = b_community b,
                                                  m_user = b_user b, m_role = b_role b,
                                                  m_created_at = clock e\<rparr>)])]\<rparr>,
               d\<lparr>members := members d @
                    [\<lparr>m_id = uuid e, m_community = b_community b, m_user = b_user b,
                      m_role = b_role b, m_created_at = clock e\<rparr>]\<rparr>))
       \<and> not_allowed =
           \<lparr>status = 403,
            body = JObj [(''status'', JBool False),
                         (''errors'',
                          JArr [JObj [(''message'',
                                       JStr ''You are not authorized to perform this action.''),
                                      (''code'', JStr ''NOT_ALLOWED_ACCESS'')]])]\<rparr>"
  using assms
  by (auto simp: post_member_def Let_def checkIfUserIsCommunityAdmin_def member_create_def
      not_allowed_def split: option.splits)

text \<open>Bob, who does not own \<open>c1\<close>, is refused; Alice, who does, adds herself.\<close>

theorem add_member_owner_only_witness:
  "post_member env_ex db_ex (Some bob_token)
      (Parsed \<lparr>b_community = ''c1'', b_user = ''u1'', b_role = ''r1''\<rparr>) = (not_allowed, db_ex)
   \<and> post_member env_ex db_ex (Some alice_token)
      (Parsed \<lparr>b_community = ''c1'', b_user = ''u1'', b_role = ''r1''\<rparr>) =
       (\<lparr>status = 200,
         body = JObj [(''status'', JBool True),
                      (''content'',
                       JObj [(''data'',
                              JObj [(''id'', JStr ''m2''), (''community'', JStr ''c1''),
                                    (''user'', JStr ''u1''), (''role'', JStr ''r1''),
                                    (''created_at'', JNum 1000)])])]\<rparr>,
        db_ex\<lparr>members := members db_ex @
                 [\<lparr>m_id = ''m2'', m_community = ''c1'', m_user = ''u1'', m_role = ''r1'',
                   m_created_at = 1000\<rparr>]\<rparr>)"
proof -
  have bob: "getUserIdFromAccessToken env_ex (accessToken_of (Some bob_token)) = Str ''u2''"
    and alice: "getUserIdFromAccessToken env_ex (accessToken_of (Some alice_token)) = Str ''u1''"
    by (simp_all add: ex_defs tok_defs)
  have c: "community_findUnique db_ex ''c1'' =
             Some \<lparr>c_id = ''c1'', c_name = ''Test Club'', c_slug = ''test-club'',
                   c_owner = ''u1'', c_created_at = 30, c_updated_at = 30\<rparr>"
    and r: "role_findUnique db_ex ''r1'' \<noteq> None"
    and u: "user_findUnique_id db_ex ''u1'' \<noteq> None"
    and m: "member_findFirst db_ex ''c1'' ''u1'' = None"
    by (simp_all add: db_ex_def find_defs)
  have e: "uuid env_ex = ''m2''" "clock env_ex = 1000"
    by (simp_all add: env_ex_def)
  from add_member_owner_only[OF bob, of db_ex "\<lparr>b_community = ''c1'', b_user = ''u1'', b_role = ''r1''\<rparr>"] c
  have 1: "post_member env_ex db_ex (Some bob_token)
      (Parsed \<lparr>b_community = ''c1'', b_user = ''u1'', b_role = ''r1''\<rparr>) = (not_allowed, db_ex)"
    by simp
  from add_member_owner_only[OF alice, of db_ex "\<lparr>b_community = ''c1'', b_user = ''u1'', b_role = ''r1''\<rparr>"] c r u m
  have 2: "post_member env_ex db_ex (Some alice_token)
      (Parsed \<lparr>b_community = ''c1'', b_user = ''u1'', b_role = ''r1''\<rparr>) =
       (\<lparr>status = 200,
         body = JObj [(''status'', JBool True),
                      (''content'',
                       JObj [(''data'',
                              JObj [(''id'', JStr ''m2''), (''community'', JStr ''c1''),
                                    (''user'', JStr ''u1''), (''role'', JStr ''r1''),
                                    (''created_at'', JNum 1000)])])]\<rparr>,
        db_ex\<lparr>members := members db_ex @
                 [\<lparr>m_id = ''m2'', m_community = ''c1'', m_user = ''u1'', m_role = ''r1'',
                   m_created_at = 1000\<rparr>]\<rparr>)"
    by (simp add: e member_json_def)
  from 1 2 show ?thesis by simp
qed

section \<open>Slug of a community\<close>

text \<open>The run decomposition is what its name says: the runs are not empty, each is
  all whitespace or all not, neighbours differ in kind, and together they are the string.\<close>

lemma concat_runs: "concat (runs s) = s"
  by (induction s) (auto split: list.splits)

lemma runs_nonempty: "[] \<notin> set (runs s)"
  by (induction s) (auto split: list.splits)

lemma runs_uniform:
  "r \<in> set (runs s) \<Longrightarrow> x \<in> set r \<Longrightarrow> is_space x = is_space (hd r)"
proof (induction s arbitrary: r x)
  case Nil
  then show ?case by simp
next
  case (Cons a s)
  show ?case
  proof (cases "runs s")
    case Nil
    with Cons.prems show ?thesis by simp
  next
    case (Cons q qs)
    with runs_nonempty[of s] obtain d ds where q: "q = d # ds"
      by (cases q) auto
    have h: "y \<in> set (d # ds) \<Longrightarrow> is_space y = is_space d" for y
      using Cons.IH[of q y] Cons q by simp
    show ?thesis
    proof (cases "is_space d = is_space a")
      case True
      with Cons.prems Cons q consider "r = a # d # ds" | "r \<in> set qs" by auto
      then show ?thesis
      proof cases
        case 1
        with Cons.prems(2) h True show ?thesis by auto
      next
        case 2
        with Cons.IH[of r x] Cons Cons.prems(2) show ?thesis by simp
      qed
    next
      case False
      with Cons.prems Cons q consider "r = [a]" | "r \<in> set (runs s)" by auto
      then show ?thesis
      proof cases
        case 1
        with Cons.prems(2) show ?thesis by simp
      next
        case 2
        with Cons.IH[of r x] Cons.prems(2) show ?thesis by simp
      qed
    qed
  qed
qed

lemma runs_alternate: "distinct_adj (map (\<lambda>r. is_space (hd r)) (runs s))"
proof (induction s)
  case Nil
  then show ?case by simp
next
  case (Cons a s)
  with runs_nonempty[of s] show ?case
    by (auto split: list.splits if_splits)
qed

text \<open>The scan of the regular expression replaces exactly the whitespace runs.\<close>

lemma runs_space_cons:
  "is_space c \<Longrightarrow> runs (c # cs) = (c # takeWhile is_space cs) # runs (dropWhile is_space cs)"
proof (induction cs arbitrary: c)
  case Nil
  then show ?case by simp
next
  case (Cons a cs)
  then show ?case
    by (cases "is_space a") (auto split: list.splits)
qed

lemma hyphen_runs_nonspace:
  "\<not> is_space c \<Longrightarrow>
     concat (map hyphen_for_run (runs (c # cs))) = c # concat (map hyphen_for_run (runs cs))"
  by (auto split: list.splits)

lemma replace_whitespace_runs:
  "replace_whitespace s = concat (map hyphen_for_run (runs s))"
proof (induction s rule: replace_whitespace.induct)
  case 1
  then show ?case by simp
next
  case (2 c cs)
  show ?case
  proof (cases "is_space c")
    case True
    with 2 show ?thesis by (simp add: runs_space_cons del: runs.simps)
  next
    case False
    with 2 show ?thesis by (simp add: hyphen_runs_nonspace del: runs.simps)
  qed
qed

lemma generateSlug_spec: "generateSlug name = slug_spec name"
  by (simp add: generateSlug_def slug_spec_def replace_whitespace_runs)

lemma post_community_created:
  assumes "post_community e d authorization (Parsed name) = (res, d')" and "status res = 201"
  shows "\<exists>row. communities d' = communities d @ [row] \<and> c_name row = name
               \<and> c_slug row = generateSlug name"
  using assms
  by (auto simp: post_community_def Let_def community_create_def not_signedin_def
      internal_error_def split: jsval.splits if_splits option.splits)

text \<open>
  Claim C6. A community created by POST /community (answer 201) with name \<open>n\<close> is stored
  with the slug that is the lower-cased \<open>n\<close> with every maximal run of whitespace replaced
  by one hyphen; the name "Open  Source Hub" gives "open-source-hub".
\<close>

theorem created_community_slug:
  assumes "post_community e d authorization (Parsed name) = (res, d')" and "status res = 201"
  shows "(\<exists>row. communities d' = communities d @ [row] \<and> c_name row = name
               \<and> c_slug row = slug_spec name)
         \<and> slug_spec ''Open  Source Hub'' = ''open-source-hub''"
proof -
  have "slug_spec ''Open  Source Hub'' = ''open-source-hub''" by code_simp
  with post_community_created[OF assms] show ?thesis by (simp add: generateSlug_spec)
qed

text \<open>Alice creates the community of the example.\<close>

lemma post_community_example: "post_community env_ex db_ex (Some alice_token) (Parsed ''Open  Source Hub'') =
     (\<lparr>status = 201,
       body = JObj [(''status'', JBool True),
                    (''content'',
                     JObj [(''data'',
                            JObj [(''id'', JStr ''7001''), (''name'', JStr ''Open  Source Hub''),
                                  (''slug'', JStr ''open-source-hub''), (''owner'', JStr ''u1''),
                                  (''created_at'', JNum 1000), (''updated_at'', JNum 1000)])])]\<rparr>,
      db_ex\<lparr>communities := communities db_ex @
              [\<lparr>c_id = ''7001'', c_name = ''Open  Source Hub'', c_slug = ''open-source-hub'',
                c_owner = ''u1'', c_created_at = 1000, c_updated_at = 1000\<rparr>]\<rparr>)"
proof -
  have s: "generateSlug ''Open  Source Hub'' = ''open-source-hub''" by code_simp
  have t: "getUserIdFromAccessToken env_ex (accessToken_of (Some alice_token)) = Str ''u1''"
    by (simp add: ex_defs tok_defs)
  have c: "community_create env_ex db_ex ''7001'' ''Open  Source Hub'' ''open-source-hub'' ''u1'' =
     Some (\<lparr>c_id = ''7001'', c_name = ''Open  Source Hub'', c_slug = ''open-source-hub'',
                c_owner = ''u1'', c_created_at = 1000, c_updated_at = 1000\<rparr>,
      db_ex\<lparr>communities := communities db_ex @
              [\<lparr>c_id = ''7001'', c_name = ''Open  Source Hub'', c_slug = ''open-source-hub'',
                c_owner = ''u1'', c_created_at = 1000, c_updated_at = 1000\<rparr>]\<rparr>)"
    by (simp add: community_create_def find_defs db_ex_def env_ex_def Let_def)
  have sf: "snowflake env_ex = ''7001''" by (simp add: env_ex_def)
  show ?thesis
    by (simp add: post_community_def s t c sf community_json_def)
qed

theorem created_community_slug_witness:
  "\<exists>row. communities (snd (post_community env_ex db_ex (Some alice_token)
                              (Parsed ''Open  Source Hub''))) = communities db_ex @ [row]
         \<and> c_name row = ''Open  Source Hub'' \<and> c_slug row = ''open-source-hub''"
proof -
  obtain res d' where
    r: "post_community env_ex db_ex (Some alice_token) (Parsed ''Open  Source Hub'') = (res, d')"
    and st: "status res = 201"
    using post_community_example by simp
  from created_community_slug[OF r st] obtain row where
    "communities d' = communities db_ex @ [row]" "c_name row = ''Open  Source Hub''"
    "c_slug row = ''open-source-hub''"
    by auto
  then show ?thesis unfolding r by (intro exI[of _ row]) simp
qed

section \<open>Pagination\<close>

text \<open>The conversions at the page parameters used below. A parameter with a numeric
  prefix is a page for \<open>parseInt\<close> and \<open>NaN\<close> for \<open>Number\<close>.\<close>

lemma page_conversions:
  "parseInt_page (Some ''0'') = Integer 0" "parseInt_page (Some ''1'') = Integer 1"
  "Number_page (Some ''0'') = Integer 0" "Number_page (Some ''1'') = Integer 1"
  "Number_page (Some ''-1'') = Integer (- 1)"
  unfolding parseInt_page_def Number_page_def option.case by code_simp+

lemma page_with_numeric_prefix:
  "parseInt_page (Some ''2abc'') = Integer 2" "Number_page (Some ''2abc'') = NaN"
  unfolding parseInt_page_def Number_page_def option.case by code_simp+

lemma numeric_prefix_pages:
  "get_community_request d (Some ''2abc'') = Some (get_community d (Some 2))"
  "get_role_request d (Some ''2abc'') = Some (get_role d None)"
  by (simp_all add: get_community_request_def get_role_request_def with_page_def
      page_with_numeric_prefix)

text \<open>A converted page of 0 is replaced by 1 in each handler.\<close>

lemma page_zero_converted:
  "get_community d (Some 0) = get_community d (Some 1)"
  "get_members d cid (Some 0) = get_members d cid (Some 1)"
  "get_role d (Some 0) = get_role d (Some 1)"
  by (simp_all add: get_community_def get_members_def get_role_def page_or_1_def)

text \<open>
  Claim C7, amended. On each of the three paginated routes (GET /community,
  GET /community/:id/members, GET /role) a request with page parameter 0 gets the same
  response as a request with page parameter 1, which is the response of the handler at
  page 1.
\<close>

theorem page_zero_is_page_one:
  "get_community_request d (Some ''0'') = get_community_request d (Some ''1'')
   \<and> get_members_request d cid (Some ''0'') = get_members_request d cid (Some ''1'')
   \<and> get_role_request d (Some ''0'') = get_role_request d (Some ''1'')
   \<and> get_community_request d (Some ''1'') = Some (get_community d (Some 1))
   \<and> get_members_request d cid (Some ''1'') = Some (get_members d cid (Some 1))
   \<and> get_role_request d (Some ''1'') = Some (get_role d (Some 1))"
  by (simp add: get_community_request_def get_members_request_def get_role_request_def
      with_page_def page_conversions page_zero_converted)

text \<open>With eleven roles, page \<open>-1\<close> slices from index \<open>-20\<close> to index \<open>-10\<close>, that is the
  first role alone, and page 1 gives the first ten.\<close>

lemma slice_eleven_negative:
  "slice [a, b, c, d, e, f, g, h, i, j, k] (- 20) (- 10) = [a]"
  by (simp add: slice_def)

lemma slice_eleven_first:
  "slice [a, b, c, d, e, f, g, h, i, j, k] 0 10 = [a, b, c, d, e, f, g, h, i, j]"
  by (simp add: slice_def)

text \<open>
  Claim C7 as stated fails for negative pages: with eleven roles, GET /role with page
  \<open>-1\<close> answers with one role and \<open>page: -1\<close>, not with the response of page 1.
\<close>

theorem negative_page_counterexample:
  "get_role_request db_eleven_roles (Some ''-1'') =
     Some (paginated 11 2 (- 1)
       [role_json \<lparr>r_id = ''a'', r_name = ''a'', r_created_at = 40, r_updated_at = 40\<rparr>])
   \<and> get_role_request db_eleven_roles (Some ''-1'') \<noteq> get_role_request db_eleven_roles (Some ''1'')
   \<and> get_role db_eleven_roles (Some (- 1)) =
     paginated 11 2 (- 1)
       [role_json \<lparr>r_id = ''a'', r_name = ''a'', r_created_at = 40, r_updated_at = 40\<rparr>]
   \<and> get_role db_eleven_roles (Some (- 1)) \<noteq> get_role db_eleven_roles (Some 1)"
  by (simp add: get_role_request_def with_page_def page_conversions
      get_role_def role_page_def page_or_1_def db_eleven_roles_def
      slice_eleven_negative slice_eleven_first ceil_div_def paginated_def meta_json_def)

text \<open>From a start index inside or behind the array, the slice of ten is the ten rows
  taken after skipping to the start.\<close>

lemma take_min_length: "take (min n (length xs)) xs = take n xs"
  by (cases "n \<le> length xs") (simp_all add: min_def)

lemma slice_window:
  assumes "0 \<le> s"
  shows "slice xs s (s + 10) = take 10 (drop (nat s) xs)"
proof (cases "s \<le> int (length xs)")
  case True
  let ?ys = "drop (nat s) xs"
  from assms True have n: "nat (min (s + 10) (int (length xs)) - s) = min 10 (length ?ys)"
    by (auto simp: min_def)
  from assms True have "slice xs s (s + 10) = take (nat (min (s + 10) (int (length xs)) - s)) ?ys"
    by (simp add: slice_def Let_def min_absorb1)
  also have "\<dots> = take (min 10 (length ?ys)) ?ys"
    by (simp only: n)
  also have "\<dots> = take 10 ?ys"
    by (rule take_min_length)
  finally show ?thesis .
next
  case False
  with assms show ?thesis by (simp add: slice_def Let_def min_def)
qed

text \<open>
  Claim C9. For every list of rows and every page number from 1 on, the role route's
  pagination (fetch all, slice from \<open>(page - 1) * 10\<close> to \<open>page * 10\<close>) gives the same rows,
  total and number of pages as the community routes' pagination (skip \<open>(page - 1) * 10\<close>,
  take 10, pages the ceiling of total / 10) on the same rows in the same order; so GET
  /role answers what that contract gives on the role table.
\<close>

theorem role_page_refines_community_page:
  assumes "1 \<le> page"
  shows "community_page rows page = Some (role_page rows page)
       \<and> get_role d (Some page) =
           (case community_page (roles d) page of
              None \<Rightarrow> internal_error
            | Some (found, n, pages) \<Rightarrow> paginated n pages page (map role_json found))"
proof -
  have w: "slice xs (page * 10 - 10) (page * 10) = take 10 (drop (nat (page * 10 - 10)) xs)"
    for xs :: "'b list"
    using assms slice_window[of "page * 10 - 10" xs] by simp
  have 1: "community_page xs page = Some (role_page xs page)" for xs :: "'b list"
    using assms by (simp add: community_page_def role_page_def findMany_take_skip_def Let_def w)
  have p: "page_or_1 (Some page) = page"
    using assms by (simp add: page_or_1_def)
  have 2: "get_role d (Some page) =
           (case community_page (roles d) page of
              None \<Rightarrow> internal_error
            | Some (found, n, pages) \<Rightarrow> paginated n pages page (map role_json found))"
    unfolding 1 by (simp add: get_role_def p split: prod.splits)
  from 1 2 show ?thesis by blast
qed

text \<open>Twelve rows, page 2: the last two rows, total 12, 2 pages.\<close>

theorem role_page_refines_community_page_witness:
  "community_page [1, 2, 3, 4, 5, 6, 7, 8, 9, 10, 11, 12 :: int] 2 = Some ([11, 12], 12, 2)"
proof -
  have r: "role_page [1, 2, 3, 4, 5, 6, 7, 8, 9, 10, 11, 12 :: int] 2 = ([11, 12], 12, 2)"
    by (simp add: role_page_def slice_def ceil_div_def)
  have "(1::int) \<le> 2" by simp
  from role_page_refines_community_page[OF this, of "[1, 2, 3, 4, 5, 6, 7, 8, 9, 10, 11, 12 :: int]" db_ex]
  show ?thesis by (simp add: r)
qed

section \<open>Signing in\<close>

text \<open>
  Claim C8. Of two sign-in requests that pass validation, one with an email that is not
  registered and one with a registered email and a password that does not match the stored
  hash, the responses are the same: 401, code INVALID_CREDENTIALS, same message and param.
\<close>

theorem signin_errors_identical:
  assumes "user_findUnique_email d (i_email b1) = None"
    and "user_findUnique_email d (i_email b2) = Some u"
    and "\<not> bcrypt_compareSync e (i_password b2) (u_password u)"
  shows "signin e d (Parsed b1) = signin e d (Parsed b2)
       \<and> signin e d (Parsed b1) =
           \<lparr>status = 401,
            body = JObj [(''status'', JBool False),
                         (''errors'',
                          JArr [JObj [(''param'', JStr ''password''),
                                      (''message'',
                                       JStr ''The credentials you provided are invalid.''),
                                      (''code'', JStr ''INVALID_CREDENTIALS'')]])]\<rparr>"
  using assms by (simp add: signin_def invalid_credentials_def)

text \<open>Carol is not registered; Alice is, and the password sent for her is wrong.\<close>

theorem signin_errors_identical_witness:
  "signin env_ex db_ex (Parsed \<lparr>i_email = ''carol@example.com'', i_password = ''wonderland''\<rparr>)
     = signin env_ex db_ex (Parsed \<lparr>i_email = ''alice@example.com'', i_password = ''w0nderland''\<rparr>)
   \<and> status (signin env_ex db_ex
        (Parsed \<lparr>i_email = ''carol@example.com'', i_password = ''wonderland''\<rparr>)) = 401"
proof -
  have 1: "user_findUnique_email db_ex
             (i_email \<lparr>i_email = ''carol@example.com'', i_password = ''wonderland''\<rparr>) = None"
    by (simp add: db_ex_def find_defs)
  have 2: "user_findUnique_email db_ex
             (i_email \<lparr>i_email = ''alice@example.com'', i_password = ''w0nderland''\<rparr>) =
           Some \<lparr>u_id = ''u1'', u_name = Some ''Alice'', u_email = ''alice@example.com'',
                 u_password = ''h:wonderland'', u_created_at = 10\<rparr>"
    by (simp add: db_ex_def find_defs)
  have 3: "\<not> bcrypt_compareSync env_ex
               (i_password \<lparr>i_email = ''alice@example.com'', i_password = ''w0nderland''\<rparr>)
               (u_password \<lparr>u_id = ''u1'', u_name = Some ''Alice'', u_email = ''alice@example.com'',
                 u_password = ''h:wonderland'', u_created_at = 10\<rparr>)"
    by (simp add: env_ex_def)
  note t = signin_errors_identical[OF 1 2 3]
  have "status (signin env_ex db_ex
        (Parsed \<lparr>i_email = ''carol@example.com'', i_password = ''wonderland''\<rparr>)) = 401"
    by (subst conjunct2[OF t]) simp
  with conjunct1[OF t] show ?thesis by blast
qed

text \<open>
  Claim C10. Every successful sign-in (answer 200) carries a user object with the fields
  id, name, email and created_at, and no field named password.
\<close>

theorem signin_success_without_password:
  assumes "signin e d validated = res" and "status res = 200"
  shows "\<exists>userData accessToken.
           body res = JObj [(''status'', JBool True),
                            (''content'',
                             JObj [(''data'', JObj userData),
                                   (''meta'', JObj [(''access_token'', JTok accessToken)])])]
         \<and> map fst userData = [''id'', ''name'', ''email'', ''created_at'']
         \<and> ''password'' \<notin> fst ` set userData"
  using assms
  by (auto simp: signin_def invalid_input_def invalid_credentials_def internal_error_def
      without_password_def user_object_def Let_def
      split: parsed.splits option.splits if_splits)

text \<open>Alice signs in with her password.\<close>

theorem signin_success_without_password_witness:
  "signin env_ex db_ex (Parsed \<lparr>i_email = ''alice@example.com'', i_password = ''wonderland''\<rparr>) =
     \<lparr>status = 200,
      body = JObj [(''status'', JBool True),
                   (''content'',
                    JObj [(''data'',
                           JObj [(''id'', JStr ''u1''), (''name'', JStr ''Alice''),
                                 (''email'', JStr ''alice@example.com''),
                                 (''created_at'', JNum 10)]),
                          (''meta'',
                           JObj [(''access_token'',
                                  JTok (Jwt ''s3cret'' [(''id'', ''u1'')] 1000 4600))])])]\<rparr>
   \<and> (\<exists>userData accessToken.
         body (signin env_ex db_ex
                 (Parsed \<lparr>i_email = ''alice@example.com'', i_password = ''wonderland''\<rparr>)) =
           JObj [(''status'', JBool True),
                 (''content'',
                  JObj [(''data'', JObj userData),
                        (''meta'', JObj [(''access_token'', JTok accessToken)])])]
         \<and> ''password'' \<notin> fst ` set userData)"
proof -
  have run: "signin env_ex db_ex
               (Parsed \<lparr>i_email = ''alice@example.com'', i_password = ''wonderland''\<rparr>) =
     \<lparr>status = 200,
      body = JObj [(''status'', JBool True),
                   (''content'',
                    JObj [(''data'',
                           JObj [(''id'', JStr ''u1''), (''name'', JStr ''Alice''),
                                 (''email'', JStr ''alice@example.com''),
                                 (''created_at'', JNum 10)]),
                          (''meta'',
                           JObj [(''access_token'',
                                  JTok (Jwt ''s3cret'' [(''id'', ''u1'')] 1000 4600))])])]\<rparr>"
    by (simp add: signin_def signin_token_def without_password_def user_object_def
        ex_defs tok_defs find_defs)
  have st: "status (signin env_ex db_ex
               (Parsed \<lparr>i_email = ''alice@example.com'', i_password = ''wonderland''\<rparr>)) = 200"
    by (simp add: run)
  from signin_success_without_password[OF refl st] run show ?thesis by blast
qed

end
